theory Spec2Isabelle
  imports Main
begin

section \<open>Python values and effects of the command handlers\<close>

text \<open>
  The handlers of \<^verbatim>\<open>examples/aws_cli.py\<close> print lines, call operations of the forensics
  library and either return or let an exception escape. A run of a handler is recorded as
  the lines printed (one per \<^verbatim>\<open>print\<close>), the library operations called with their
  arguments, and the exception that escaped, if any.

  Strings are \<^typ>\<open>string\<close>: one \<^typ>\<open>char\<close> per code point, which covers the code
  points below 256. An optional command-line argument is a \<^typ>\<open>string option\<close>, with
  \<open>None\<close> for Python's \<^verbatim>\<open>None\<close>; \<^verbatim>\<open>if args.x:\<close> holds for \<open>Some s\<close> with
  \<open>s\<close> non-empty only.
\<close>

datatype error = ValueError | KeyError | LibraryError string

record 'c run =
  printed :: "string list"
  calls :: "'c list"
  raised :: "error option"

text \<open>
  \<^verbatim>\<open>argparse.Namespace\<close>, with the attributes the handlers read. The parser that fills
  it is not part of the file, so the numeric arguments, which the handler passes through
  \<^verbatim>\<open>int(...)\<close>, have a type parameter, and \<^verbatim>\<open>int\<close> is a parameter of the handler.
\<close>

record 'n args =
  zone :: string
  dst_zone :: "string option"
  instance_id :: "string option"
  volume_id :: "string option"
  src_profile :: "string option"
  dst_profile :: "string option"
  tags :: "string option"
  filter_arg :: "string option"
  start :: "string option"
  end_arg :: "string option"
  attach_volumes :: "string option"
  instance_name :: string
  disk_size :: 'n
  cpu_cores :: 'n
  ami :: "string option"
  ssh_key_name :: "string option"

text \<open>
  Objects of the library: an account is built from a zone, a trail from an account. Building
  them is taken to succeed; the operations called on them, which are parameters of the
  handlers, return a value or an exception.
\<close>

datatype AWSAccount = AWSAccount string

datatype AWSCloudTrail = AWSCloudTrail AWSAccount

record AWSVolume =
  vol_volume_id :: string
  vol_name :: string
  vol_availability_zone :: string

record AWSInstance =
  inst_name :: string
  inst_region :: string
  inst_GetBootVolume :: "error + AWSVolume"

section \<open>StartAnalysisVm\<close>

text \<open>\<^verbatim>\<open>str.split(sep)\<close> for a one-character separator: one more piece than separators.\<close>

fun str_split :: "char \<Rightarrow> string \<Rightarrow> string list" where
  "str_split sep [] = [[]]"
| "str_split sep (c # cs) =
     (if c = sep then [] # str_split sep cs
      else (case str_split sep cs of
              [] \<Rightarrow> [[c]]
            | w # ws \<Rightarrow> (c # w) # ws))"

text \<open>\<^verbatim>\<open>ord\<close> and \<^verbatim>\<open>chr\<close> on code points below 256.\<close>

definition ord :: "char \<Rightarrow> nat" where
  "ord c = of_char c"

definition chr :: "nat \<Rightarrow> char" where
  "chr n = char_of n"

text \<open>
  The loop over \<^verbatim>\<open>volumes\<close>, on the state (\<^verbatim>\<open>attach_volumes\<close>, \<^verbatim>\<open>device_letter\<close>).
\<close>

fun device_loop ::
  "string list \<Rightarrow> (string \<times> string) list \<times> nat \<Rightarrow> (string \<times> string) list \<times> nat" where
  "device_loop [] st = st"
| "device_loop (volume # volumes) (attach, device_letter) =
     device_loop volumes
       (attach @ [(volume, ''/dev/sd'' @ [chr device_letter])], device_letter + 1)"

text \<open>
  Lines 118 to 136: the two checks and the loop. \<open>Inl\<close> is the message printed before the
  early return, \<open>Inr\<close> the list \<^verbatim>\<open>attach_volumes\<close> the handler goes on with.
\<close>

fun build_attach_volumes :: "string option \<Rightarrow> string + (string \<times> string) list" where
  "build_attach_volumes None = Inr []"
| "build_attach_volumes (Some s) =
     (if s \<noteq> [] \<and> length s > 11 then Inl ''error: --attach_volumes must be < 11''
      else if s \<noteq> [] then
        (let volumes = str_split CHR '','' s in
         if \<not> (volumes \<noteq> [] \<and> list_all (\<lambda>elements. elements \<noteq> []) volumes)
         then Inl (''error: parameter --attach_volumes: '' @ s)
         else Inr (fst (device_loop volumes ([], ord CHR ''f''))))
      else Inr [])"

text \<open>The keyword arguments of \<^verbatim>\<open>forensics.StartAnalysisVm\<close>.\<close>

record vm_call =
  kw_vm_name :: string
  kw_default_availability_zone :: string
  kw_boot_volume_size :: int
  kw_cpu_cores :: int
  kw_ami :: "string option"
  kw_ssh_key_name :: "string option"
  kw_attach_volumes :: "(string \<times> string) list"

text \<open>
  The handler. \<open>py_int\<close> is \<^verbatim>\<open>int\<close> on the numeric arguments and
  \<open>forensics_StartAnalysisVm\<close> the library operation; it returns the pair \<^verbatim>\<open>vm\<close>, whose
  second component is given as the text \<^verbatim>\<open>str(vm[1])\<close>.
\<close>

definition StartAnalysisVm ::
  "('n \<Rightarrow> error + int) \<Rightarrow> (vm_call \<Rightarrow> error + AWSInstance \<times> string) \<Rightarrow> 'n args
     \<Rightarrow> vm_call run" where
  "StartAnalysisVm py_int forensics_StartAnalysisVm args =
     (case build_attach_volumes (attach_volumes args) of
        Inl message \<Rightarrow> \<lparr>printed = [message], calls = [], raised = None\<rparr>
      | Inr attach \<Rightarrow>
          (case py_int (disk_size args) of
             Inl e \<Rightarrow> \<lparr>printed = [''Starting analysis VM...''], calls = [], raised = Some e\<rparr>
           | Inr boot \<Rightarrow>
               (case py_int (cpu_cores args) of
                  Inl e \<Rightarrow>
                    \<lparr>printed = [''Starting analysis VM...''], calls = [], raised = Some e\<rparr>
                | Inr cores \<Rightarrow>
                    (let call = \<lparr>kw_vm_name = instance_name args,
                                 kw_default_availability_zone = zone args,
                                 kw_boot_volume_size = boot,
                                 kw_cpu_cores = cores,
                                 kw_ami = ami args,
                                 kw_ssh_key_name = ssh_key_name args,
                                 kw_attach_volumes = attach\<rparr>
                     in (case forensics_StartAnalysisVm call of
                           Inl e \<Rightarrow>
                             \<lparr>printed = [''Starting analysis VM...''], calls = [call],
                              raised = Some e\<rparr>
                         | Inr vm \<Rightarrow>
                             \<lparr>printed = [''Starting analysis VM...'', ''Analysis VM started.'',
                                ''Name: '' @ inst_name (fst vm) @ '', Started: '' @ snd vm
                                  @ '', Region: '' @ inst_region (fst vm)],
                              calls = [call], raised = None\<rparr>)))))"

section \<open>The listing commands\<close>

text \<open>
  \<^verbatim>\<open>aws_account.ListInstances()\<close> and \<^verbatim>\<open>ListVolumes()\<close> return a dict from names to
  objects; it is given as the list of its items in iteration order. The loop runs over the
  keys and looks each one up again, as the source does.
\<close>

fun print_instances ::
  "(string \<times> AWSInstance) list \<Rightarrow> string list \<Rightarrow> string list \<Rightarrow> string list \<times> error option"
  where
  "print_instances instances [] out = (out, None)"
| "print_instances instances (instance # rest) out =
     (case map_of instances instance of
        None \<Rightarrow> (out, Some KeyError)
      | Some i \<Rightarrow>
          (case inst_GetBootVolume i of
             Inl e \<Rightarrow> (out, Some e)
           | Inr boot_volume \<Rightarrow>
               print_instances instances rest
                 (out @ [''Name: '' @ instance @ '', Boot volume: ''
                           @ vol_volume_id boot_volume])))"

definition ListInstances ::
  "(AWSAccount \<Rightarrow> error + (string \<times> AWSInstance) list) \<Rightarrow> 'n args \<Rightarrow> AWSAccount run" where
  "ListInstances account_ListInstances args =
     (let aws_account = AWSAccount (zone args) in
      case account_ListInstances aws_account of
        Inl e \<Rightarrow> \<lparr>printed = [], calls = [aws_account], raised = Some e\<rparr>
      | Inr instances \<Rightarrow>
          (let (out, exc) = print_instances instances (map fst instances) [''Instances found:'']
           in \<lparr>printed = out, calls = [aws_account], raised = exc\<rparr>))"

fun print_volumes ::
  "(string \<times> AWSVolume) list \<Rightarrow> string list \<Rightarrow> string list \<Rightarrow> string list \<times> error option"
  where
  "print_volumes volumes [] out = (out, None)"
| "print_volumes volumes (volume # rest) out =
     (case map_of volumes volume of
        None \<Rightarrow> (out, Some KeyError)
      | Some v \<Rightarrow>
          print_volumes volumes rest
            (out @ [''Name: '' @ volume @ '', Zone: '' @ vol_availability_zone v]))"

definition ListVolumes ::
  "(AWSAccount \<Rightarrow> error + (string \<times> AWSVolume) list) \<Rightarrow> 'n args \<Rightarrow> AWSAccount run" where
  "ListVolumes account_ListVolumes args =
     (let aws_account = AWSAccount (zone args) in
      case account_ListVolumes aws_account of
        Inl e \<Rightarrow> \<lparr>printed = [], calls = [aws_account], raised = Some e\<rparr>
      | Inr volumes \<Rightarrow>
          (let (out, exc) = print_volumes volumes (map fst volumes) [''Volumes found:'']
           in \<lparr>printed = out, calls = [aws_account], raised = exc\<rparr>))"

text \<open>
  \<^verbatim>\<open>ListImages\<close> takes the filter \<^verbatim>\<open>[{'Name': 'name', 'Values': [args.filter]}]\<close> and
  returns a list of dicts; \<^verbatim>\<open>image['Name']\<close> raises \<^verbatim>\<open>KeyError\<close> on a missing key.
  The handler prints no line before its loop.
\<close>

record name_filter =
  Name :: string
  Values :: "string option list"

definition subscript :: "(string \<times> string) list \<Rightarrow> string \<Rightarrow> error + string" where
  "subscript d k = (case map_of d k of None \<Rightarrow> Inl KeyError | Some v \<Rightarrow> Inr v)"

fun print_images ::
  "(string \<times> string) list list \<Rightarrow> string list \<Rightarrow> string list \<times> error option" where
  "print_images [] out = (out, None)"
| "print_images (image' # rest) out =
     (case subscript image' ''Name'' of
        Inl e \<Rightarrow> (out, Some e)
      | Inr n \<Rightarrow>
          (case subscript image' ''ImageId'' of
             Inl e \<Rightarrow> (out, Some e)
           | Inr i \<Rightarrow>
               (case subscript image' ''ImageLocation'' of
                  Inl e \<Rightarrow> (out, Some e)
                | Inr l \<Rightarrow>
                    print_images rest
                      (out @ [''Name: '' @ n @ '', ImageId: '' @ i @ '', Location: '' @ l]))))"

definition ListImages ::
  "(AWSAccount \<Rightarrow> name_filter list \<Rightarrow> error + (string \<times> string) list list) \<Rightarrow> 'n args
     \<Rightarrow> (AWSAccount \<times> name_filter list) run" where
  "ListImages account_ListImages args =
     (let aws_account = AWSAccount (zone args);
          qfilter = [\<lparr>Name = ''name'', Values = [filter_arg args]\<rparr>]
      in case account_ListImages aws_account qfilter of
           Inl e \<Rightarrow> \<lparr>printed = [], calls = [(aws_account, qfilter)], raised = Some e\<rparr>
         | Inr images \<Rightarrow>
             (let (out, exc) = print_images images []
              in \<lparr>printed = out, calls = [(aws_account, qfilter)], raised = exc\<rparr>))"

section \<open>CreateVolumeCopy\<close>

text \<open>
  The arguments of \<^verbatim>\<open>forensics.CreateVolumeCopy\<close>: the zone and six keywords.
  \<open>json_loads\<close> is \<^verbatim>\<open>json.loads\<close>, with values of JSON in \<open>'j\<close>; the keyword
  \<^verbatim>\<open>tags\<close> is \<open>None\<close> when the handler leaves \<^verbatim>\<open>tags = None\<close>.
\<close>

record 'j copy_call =
  kw_zone :: string
  kw_dst_zone :: "string option"
  kw_instance_id :: "string option"
  kw_volume_id :: "string option"
  kw_src_profile :: "string option"
  kw_dst_profile :: "string option"
  kw_tags :: "'j option"

definition parse_tags :: "(string \<Rightarrow> error + 'j) \<Rightarrow> string option \<Rightarrow> error + 'j option" where
  "parse_tags json_loads a =
     (case a of
        None \<Rightarrow> Inr None
      | Some s \<Rightarrow>
          if s \<noteq> [] then (case json_loads s of Inl e \<Rightarrow> Inl e | Inr j \<Rightarrow> Inr (Some j))
          else Inr None)"

definition CreateVolumeCopy ::
  "(string \<Rightarrow> error + 'j) \<Rightarrow> ('j copy_call \<Rightarrow> error + AWSVolume) \<Rightarrow> 'n args
     \<Rightarrow> 'j copy_call run" where
  "CreateVolumeCopy json_loads forensics_CreateVolumeCopy args =
     (case parse_tags json_loads (tags args) of
        Inl e \<Rightarrow> \<lparr>printed = [''Starting volume copy...''], calls = [], raised = Some e\<rparr>
      | Inr tags' \<Rightarrow>
          (let call = \<lparr>kw_zone = zone args,
                       kw_dst_zone = dst_zone args,
                       kw_instance_id = instance_id args,
                       kw_volume_id = volume_id args,
                       kw_src_profile = src_profile args,
                       kw_dst_profile = dst_profile args,
                       kw_tags = tags'\<rparr>
           in (case forensics_CreateVolumeCopy call of
                 Inl e \<Rightarrow>
                   \<lparr>printed = [''Starting volume copy...''], calls = [call], raised = Some e\<rparr>
               | Inr volume_copy \<Rightarrow>
                   \<lparr>printed = [''Starting volume copy...'',
                      ''Done! Volume '' @ vol_volume_id volume_copy
                        @ '' successfully created. You will find it in ''
                        @ ''your AWS account under the name '' @ vol_name volume_copy @ ''.''],
                    calls = [call], raised = None\<rparr>)))"

section \<open>QueryLogs\<close>

text \<open>
  \<^verbatim>\<open>params\<close> is a dict from keyword names to a string or a \<^verbatim>\<open>datetime\<close>.
  \<open>strptime\<close> is \<^verbatim>\<open>datetime.strptime\<close> at the format \<^verbatim>\<open>'%Y-%m-%d %H:%M:%S'\<close>, with
  \<^verbatim>\<open>datetime\<close> values in \<open>'dt\<close>; \<open>py_str\<close> is the text \<^verbatim>\<open>print\<close> gives an event.
\<close>

datatype 'dt param = StrParam string | TimeParam 'dt

definition set_filter :: "string option \<Rightarrow> (string \<rightharpoonup> 'dt param) \<Rightarrow> (string \<rightharpoonup> 'dt param)" where
  "set_filter a params =
     (case a of
        None \<Rightarrow> params
      | Some s \<Rightarrow> if s \<noteq> [] then params(''qfilter'' \<mapsto> StrParam s) else params)"

definition set_time ::
  "(string \<Rightarrow> error + 'dt) \<Rightarrow> string \<Rightarrow> string option \<Rightarrow> (string \<rightharpoonup> 'dt param)
     \<Rightarrow> error + (string \<rightharpoonup> 'dt param)" where
  "set_time strptime key a params =
     (case a of
        None \<Rightarrow> Inr params
      | Some s \<Rightarrow>
          if s \<noteq> [] then
            (case strptime s of Inl e \<Rightarrow> Inl e | Inr t \<Rightarrow> Inr (params(key \<mapsto> TimeParam t)))
          else Inr params)"

text \<open>\<^verbatim>\<open>'{0:d}'.format(n)\<close> for \<open>n\<close> a length.\<close>

fun format_d :: "nat \<Rightarrow> string" where
  "format_d n =
     (if n < 10 then [chr (48 + n)] else format_d (n div 10) @ [chr (48 + n mod 10)])"

definition QueryLogs ::
  "(string \<Rightarrow> error + 'dt) \<Rightarrow> (AWSCloudTrail \<Rightarrow> (string \<rightharpoonup> 'dt param) \<Rightarrow> error + 'ev list)
     \<Rightarrow> ('ev \<Rightarrow> string) \<Rightarrow> 'n args \<Rightarrow> (AWSCloudTrail \<times> (string \<rightharpoonup> 'dt param)) run" where
  "QueryLogs strptime ct_LookupEvents py_str args =
     (let ct = AWSCloudTrail (AWSAccount (zone args));
          params = set_filter (filter_arg args) Map.empty
      in case set_time strptime ''starttime'' (start args) params of
           Inl e \<Rightarrow> \<lparr>printed = [], calls = [], raised = Some e\<rparr>
         | Inr params \<Rightarrow>
             (case set_time strptime ''endtime'' (end_arg args) params of
                Inl e \<Rightarrow> \<lparr>printed = [], calls = [], raised = Some e\<rparr>
              | Inr params \<Rightarrow>
                  (case ct_LookupEvents ct params of
                     Inl e \<Rightarrow> \<lparr>printed = [], calls = [(ct, params)], raised = Some e\<rparr>
                   | Inr result \<Rightarrow>
                       \<lparr>printed =
                          (if result \<noteq> []
                           then (''Log events found: '' @ format_d (length result))
                                  # map py_str result
                           else []),
                        calls = [(ct, params)], raised = None\<rparr>)))"

declare format_d.simps [simp del]

section \<open>An invocation for the examples\<close>

text \<open>
  The namespace of an invocation that gives a zone, an instance name and the two sizes as
  integers, and none of the optional arguments; \<^verbatim>\<open>int\<close> on an integer is \<open>Inr\<close>.
\<close>

definition no_args :: "int args" where
  "no_args = \<lparr>zone = ''us-east-1a'', dst_zone = None, instance_id = None, volume_id = None,
     src_profile = None, dst_profile = None, tags = None, filter_arg = None, start = None,
     end_arg = None, attach_volumes = None, instance_name = ''analysis-vm'', disk_size = 50,
     cpu_cores = 4, ami = None, ssh_key_name = None\<rparr>"

text \<open>A VM-start operation that succeeds, for the examples.\<close>

definition started :: "vm_call \<Rightarrow> error + AWSInstance \<times> string" where
  "started c =
     Inr (\<lparr>inst_name = kw_vm_name c, inst_region = ''us-east-1'',
           inst_GetBootVolume =
             Inr \<lparr>vol_volume_id = ''vol-0boot'', vol_name = ''boot'',
                  vol_availability_zone = kw_default_availability_zone c\<rparr>\<rparr>,
          ''True'')"

text \<open>
  Stand-ins for \<^verbatim>\<open>datetime.strptime\<close> and \<^verbatim>\<open>json.loads\<close> on one input each, and
  library operations that succeed, for the examples.
\<close>

definition strptime_example :: "string \<Rightarrow> error + nat \<times> nat \<times> nat \<times> nat \<times> nat \<times> nat" where
  "strptime_example s =
     (if s = ''2020-01-01 00:00:00'' then Inr (2020, 1, 1, 0, 0, 0) else Inl ValueError)"

definition json_loads_example :: "string \<Rightarrow> error + (string \<times> string) list" where
  \<open>json_loads_example s =
     (if s = ''{"case": "42"}'' then Inr [(''case'', ''42'')] else Inl ValueError)\<close>

definition copied :: "'j copy_call \<Rightarrow> error + AWSVolume" where
  "copied c =
     Inr \<lparr>vol_volume_id = ''vol-0copy'', vol_name = ''evidence-copy'',
          vol_availability_zone = kw_zone c\<rparr>"

definition no_events :: "AWSCloudTrail \<Rightarrow> (string \<rightharpoonup> 'dt param) \<Rightarrow> error + string list" where
  "no_events ct params = Inr []"

section \<open>Splitting and the device loop\<close>

lemma str_split_not_Nil: "str_split sep s \<noteq> []"
  by (induction s) (auto split: list.splits)

text \<open>The pieces and the separators between them make up the string.\<close>

lemma str_split_length:
  "sum_list (map length (str_split sep s)) + length (str_split sep s) = length s + 1"
  by (induction s) (auto split: list.splits simp: str_split_not_Nil)

lemma nonempty_sum: "list_all (\<lambda>e. e \<noteq> []) xs \<Longrightarrow> length xs \<le> sum_list (map length xs)"
proof (induction xs)
  case Nil
  then show ?case by simp
next
  case (Cons x xs)
  then have "1 \<le> length x" by (cases x) auto
  with Cons show ?case by simp
qed

lemma nonempty_entries_bound:
  assumes "list_all (\<lambda>e. e \<noteq> []) (str_split sep s)"
  shows "2 * length (str_split sep s) \<le> length s + 1"
  using nonempty_sum [OF assms] str_split_length [of sep s] by linarith

lemma upt_shift: "[l ..< l + Suc n] = l # [Suc l ..< Suc l + n]"
  using upt_conv_Cons [of l "l + Suc n"] by simp

text \<open>The loop pairs the volumes with the device names of consecutive letters.\<close>

lemma device_loop_eq:
  "device_loop vs (acc, l) =
     (acc @ zip vs (map (\<lambda>i. ''/dev/sd'' @ [chr i]) [l ..< l + length vs]), l + length vs)"
proof (induction vs arbitrary: acc l)
  case Nil
  then show ?case by simp
next
  case (Cons v vs)
  show ?case
    using Cons.IH [of "acc @ [(v, ''/dev/sd'' @ [chr l])]" "Suc l"] upt_shift [of l "length vs"]
    by simp
qed

lemma ord_f: "ord CHR ''f'' = 102"
  by code_simp

lemma build_attach_volumes_Inr:
  assumes "build_attach_volumes (Some s) = Inr attach" and "s \<noteq> []"
  shows "length s \<le> 11 \<and> list_all (\<lambda>e. e \<noteq> []) (str_split CHR '','' s) \<and>
         attach = zip (str_split CHR '','' s)
           (map (\<lambda>i. ''/dev/sd'' @ [chr i]) [102 ..< 102 + length (str_split CHR '','' s)])"
  using assms by (auto simp: Let_def device_loop_eq ord_f split: if_splits)

section \<open>StartAnalysisVm: what a run does after the checks\<close>

lemma StartAnalysisVm_early:
  "build_attach_volumes (attach_volumes args) = Inl m \<Longrightarrow>
     StartAnalysisVm py_int lib args = \<lparr>printed = [m], calls = [], raised = None\<rparr>"
  by (simp add: StartAnalysisVm_def)

lemma StartAnalysisVm_calls:
  "c \<in> set (calls (StartAnalysisVm py_int lib args)) \<Longrightarrow>
     build_attach_volumes (attach_volumes args) = Inr (kw_attach_volumes c)"
  by (auto simp: StartAnalysisVm_def Let_def split: sum.splits)

lemma StartAnalysisVm_proceeds:
  assumes "build_attach_volumes (attach_volumes args) = Inr attach"
    and "py_int (disk_size args) = Inr boot" and "py_int (cpu_cores args) = Inr cores"
  shows "calls (StartAnalysisVm py_int lib args) =
      [\<lparr>kw_vm_name = instance_name args, kw_default_availability_zone = zone args,
        kw_boot_volume_size = boot, kw_cpu_cores = cores, kw_ami = ami args,
        kw_ssh_key_name = ssh_key_name args, kw_attach_volumes = attach\<rparr>]"
  using assms by (auto simp: StartAnalysisVm_def Let_def split: sum.splits)

text \<open>
  C5. With \<^verbatim>\<open>attach_volumes\<close> the string \<^verbatim>\<open>v1,v2,v3\<close>, and sizes that \<^verbatim>\<open>int\<close>
  accepts, the handler calls the VM-start operation once, with the attachment pairs
  (v1, /dev/sdf), (v2, /dev/sdg), (v3, /dev/sdh) and the other arguments as given.
\<close>

theorem StartAnalysisVm_v1_v2_v3:
  assumes "attach_volumes args = Some ''v1,v2,v3''"
    and "py_int (disk_size args) = Inr boot" and "py_int (cpu_cores args) = Inr cores"
  shows "calls (StartAnalysisVm py_int lib args) =
      [\<lparr>kw_vm_name = instance_name args, kw_default_availability_zone = zone args,
        kw_boot_volume_size = boot, kw_cpu_cores = cores, kw_ami = ami args,
        kw_ssh_key_name = ssh_key_name args,
        kw_attach_volumes =
          [(''v1'', ''/dev/sdf''), (''v2'', ''/dev/sdg''), (''v3'', ''/dev/sdh'')]\<rparr>]"
proof -
  have "build_attach_volumes (Some ''v1,v2,v3'') =
      Inr [(''v1'', ''/dev/sdf''), (''v2'', ''/dev/sdg''), (''v3'', ''/dev/sdh'')]"
    by code_simp
  with assms show ?thesis by (simp add: StartAnalysisVm_proceeds)
qed

theorem StartAnalysisVm_v1_v2_v3_witness:
  "calls (StartAnalysisVm Inr (\<lambda>c. Inl (LibraryError ''no credentials''))
       (no_args\<lparr>attach_volumes := Some ''v1,v2,v3''\<rparr>)) =
      [\<lparr>kw_vm_name = ''analysis-vm'', kw_default_availability_zone = ''us-east-1a'',
        kw_boot_volume_size = 50, kw_cpu_cores = 4, kw_ami = None, kw_ssh_key_name = None,
        kw_attach_volumes =
          [(''v1'', ''/dev/sdf''), (''v2'', ''/dev/sdg''), (''v3'', ''/dev/sdh'')]\<rparr>]"
  using StartAnalysisVm_v1_v2_v3 [of "no_args\<lparr>attach_volumes := Some ''v1,v2,v3''\<rparr>" Inr 50 4]
  by (simp add: no_args_def)

text \<open>
  A string that passes both checks gives one pair per piece, in order, with the letters
  from \<^verbatim>\<open>f\<close> on.
\<close>

lemma StartAnalysisVm_accepts_short:
  assumes "attach_volumes args = Some s" and "s \<noteq> []" and "length s \<le> 11"
    and "list_all (\<lambda>e. e \<noteq> []) (str_split CHR '','' s)"
    and "py_int (disk_size args) = Inr boot" and "py_int (cpu_cores args) = Inr cores"
  shows "calls (StartAnalysisVm py_int lib args) =
      [\<lparr>kw_vm_name = instance_name args, kw_default_availability_zone = zone args,
        kw_boot_volume_size = boot, kw_cpu_cores = cores, kw_ami = ami args,
        kw_ssh_key_name = ssh_key_name args,
        kw_attach_volumes = zip (str_split CHR '','' s)
           (map (\<lambda>i. ''/dev/sd'' @ [chr i])
              [102 ..< 102 + length (str_split CHR '','' s)])\<rparr>]"
proof -
  have "build_attach_volumes (attach_volumes args) = Inr (zip (str_split CHR '','' s)
           (map (\<lambda>i. ''/dev/sd'' @ [chr i]) [102 ..< 102 + length (str_split CHR '','' s)]))"
    using assms(1-4) by (simp add: Let_def device_loop_eq ord_f str_split_not_Nil)
  from StartAnalysisVm_proceeds [OF this assms(5,6)] show ?thesis .
qed

text \<open>A string of more than 11 characters is rejected, whatever its entries are.\<close>

lemma StartAnalysisVm_rejects_long_string:
  assumes "attach_volumes args = Some s" and "length s > 11"
  shows "StartAnalysisVm py_int lib args =
     \<lparr>printed = [''error: --attach_volumes must be < 11''], calls = [], raised = None\<rparr>"
proof -
  from assms(2) have "s \<noteq> []" by auto
  with assms have "build_attach_volumes (attach_volumes args) =
      Inl ''error: --attach_volumes must be < 11''"
    by simp
  then show ?thesis by (rule StartAnalysisVm_early)
qed

text \<open>
  C1. The claim is that every list of 1 to 10 non-empty entries is accepted. The first check
  of the handler compares the number of characters of the argument with 11, not the number
  of entries: the single volume id \<^verbatim>\<open>vol-1a2b3c4d\<close>, of 12 characters, is one non-empty
  entry, and the handler prints the error of the first check and returns without a call.
\<close>

theorem StartAnalysisVm_rejects_long_volume_id:
  "str_split CHR '','' ''vol-1a2b3c4d'' = [''vol-1a2b3c4d''] \<and>
   StartAnalysisVm Inr started (no_args\<lparr>attach_volumes := Some ''vol-1a2b3c4d''\<rparr>) =
     \<lparr>printed = [''error: --attach_volumes must be < 11''], calls = [], raised = None\<rparr>"
  by (simp add: StartAnalysisVm_def no_args_def)

section \<open>StartAnalysisVm: rejected arguments\<close>

lemma many_entries_rejected:
  assumes "11 \<le> length (str_split CHR '','' s)"
  shows "build_attach_volumes (Some s) = Inl ''error: --attach_volumes must be < 11'' \<or>
         build_attach_volumes (Some s) = Inl (''error: parameter --attach_volumes: '' @ s)"
proof (cases "length s > 11")
  case True
  then show ?thesis by auto
next
  case False
  have "s \<noteq> []" using assms by auto
  have "\<not> list_all (\<lambda>e. e \<noteq> []) (str_split CHR '','' s)"
  proof
    assume "list_all (\<lambda>e. e \<noteq> []) (str_split CHR '','' s)"
    from nonempty_entries_bound [OF this] assms False show False by linarith
  qed
  with False \<open>s \<noteq> []\<close> show ?thesis by (simp add: Let_def)
qed

text \<open>
  C3. When the argument splits into 11 or more entries, the handler prints one line, an
  error message (that of the first check when the string has more than 11 characters, that
  of the second otherwise, where some entry is then empty), and returns without calling the
  VM-start operation.
\<close>

theorem StartAnalysisVm_rejects_eleven_entries:
  assumes "attach_volumes args = Some s" and "11 \<le> length (str_split CHR '','' s)"
  shows "calls (StartAnalysisVm py_int lib args) = [] \<and>
         raised (StartAnalysisVm py_int lib args) = None \<and>
         (printed (StartAnalysisVm py_int lib args) =
            [''error: --attach_volumes must be < 11''] \<or>
          printed (StartAnalysisVm py_int lib args) =
            [''error: parameter --attach_volumes: '' @ s])"
  using many_entries_rejected [OF assms(2)] assms(1)
  by (auto simp: StartAnalysisVm_early)

theorem StartAnalysisVm_rejects_eleven_entries_witness:
  "11 \<le> length (str_split CHR '','' ''a,b,c,d,e,f,g,h,i,j,k'') \<and>
   calls (StartAnalysisVm Inr started
       (no_args\<lparr>attach_volumes := Some ''a,b,c,d,e,f,g,h,i,j,k''\<rparr>)) = [] \<and>
   printed (StartAnalysisVm Inr started
       (no_args\<lparr>attach_volumes := Some ''a,b,c,d,e,f,g,h,i,j,k''\<rparr>)) =
     [''error: --attach_volumes must be < 11'']"
proof -
  have h: "11 \<le> length (str_split CHR '','' ''a,b,c,d,e,f,g,h,i,j,k'')"
    by code_simp
  have p: "printed (StartAnalysisVm Inr started
       (no_args\<lparr>attach_volumes := Some ''a,b,c,d,e,f,g,h,i,j,k''\<rparr>)) =
     [''error: --attach_volumes must be < 11'']"
    by (simp add: StartAnalysisVm_def no_args_def)
  show ?thesis
    using h p StartAnalysisVm_rejects_eleven_entries
        [of "no_args\<lparr>attach_volumes := Some ''a,b,c,d,e,f,g,h,i,j,k''\<rparr>"
          "''a,b,c,d,e,f,g,h,i,j,k''" Inr started]
    by (simp add: no_args_def)
qed

lemma empty_entry_rejected:
  assumes "s \<noteq> []" and "[] \<in> set (str_split CHR '','' s)"
  shows "build_attach_volumes (Some s) = Inl ''error: --attach_volumes must be < 11'' \<or>
         build_attach_volumes (Some s) = Inl (''error: parameter --attach_volumes: '' @ s)"
proof -
  have "\<not> list_all (\<lambda>e. e \<noteq> []) (str_split CHR '','' s)"
    using assms(2) by (auto simp: list_all_iff)
  with assms(1) show ?thesis by (simp add: Let_def)
qed

text \<open>
  C4. When the argument is supplied, that is a non-empty string as the guard
  \<^verbatim>\<open>if args.attach_volumes:\<close> has it, and one of its comma-separated entries is empty,
  the handler prints one line, an error message, and returns without calling the VM-start
  operation.
\<close>

theorem StartAnalysisVm_rejects_empty_entry:
  assumes "attach_volumes args = Some s" and "s \<noteq> []"
    and "[] \<in> set (str_split CHR '','' s)"
  shows "calls (StartAnalysisVm py_int lib args) = [] \<and>
         raised (StartAnalysisVm py_int lib args) = None \<and>
         (printed (StartAnalysisVm py_int lib args) =
            [''error: --attach_volumes must be < 11''] \<or>
          printed (StartAnalysisVm py_int lib args) =
            [''error: parameter --attach_volumes: '' @ s])"
  using empty_entry_rejected [OF assms(2,3)] assms(1)
  by (auto simp: StartAnalysisVm_early)

theorem StartAnalysisVm_rejects_empty_entry_witness:
  "[] \<in> set (str_split CHR '','' ''v1,,v2'') \<and>
   calls (StartAnalysisVm Inr started (no_args\<lparr>attach_volumes := Some ''v1,,v2''\<rparr>)) = [] \<and>
   printed (StartAnalysisVm Inr started (no_args\<lparr>attach_volumes := Some ''v1,,v2''\<rparr>)) =
     [''error: parameter --attach_volumes: v1,,v2'']"
proof -
  have h: "[] \<in> set (str_split CHR '','' ''v1,,v2'')"
    by code_simp
  have p: "printed (StartAnalysisVm Inr started
       (no_args\<lparr>attach_volumes := Some ''v1,,v2''\<rparr>)) =
     [''error: parameter --attach_volumes: v1,,v2'']"
    by (simp add: StartAnalysisVm_def no_args_def)
  show ?thesis
    using h p StartAnalysisVm_rejects_empty_entry
        [of "no_args\<lparr>attach_volumes := Some ''v1,,v2''\<rparr>" "''v1,,v2''" Inr started]
    by (simp add: no_args_def)
qed

text \<open>
  The empty string is no list of entries: the checks treat it as an absent argument.
\<close>

lemma build_attach_volumes_empty_string:
  "build_attach_volumes (Some []) = build_attach_volumes None"
  by simp

section \<open>StartAnalysisVm: the device names forwarded\<close>

lemma letters_f_to_p: "\<forall>i \<in> set [102 ..< 113]. chr i \<in> set ''fghijklmnop''"
  by code_simp

lemma device_in_range:
  assumes "102 \<le> i" and "i < 113"
  shows "''/dev/sd'' @ [chr i] \<in> set (map (\<lambda>l. ''/dev/sd'' @ [l]) ''fghijklmnop'')"
proof -
  from assms have "i \<in> {102 ..< 113}" by simp
  then have "i \<in> set [102 ..< 113]" by (simp only: set_upt)
  with letters_f_to_p have "chr i \<in> set ''fghijklmnop''" by blast
  then show ?thesis by (simp only: set_map) blast
qed

text \<open>
  C6. Every pair in the attachment list of a call of the VM-start operation has as device
  name \<^verbatim>\<open>/dev/sd\<close> followed by one letter from \<^verbatim>\<open>f\<close> to \<^verbatim>\<open>p\<close>.
\<close>

theorem StartAnalysisVm_device_names_in_range:
  assumes "c \<in> set (calls (StartAnalysisVm py_int lib args))"
    and "(v, d) \<in> set (kw_attach_volumes c)"
  shows "d \<in> set (map (\<lambda>l. ''/dev/sd'' @ [l]) ''fghijklmnop'')"
proof -
  have b: "build_attach_volumes (attach_volumes args) = Inr (kw_attach_volumes c)"
    using assms(1) by (rule StartAnalysisVm_calls)
  show ?thesis
  proof (cases "attach_volumes args")
    case None
    with b assms(2) show ?thesis by simp
  next
    case (Some s)
    show ?thesis
    proof (cases "s = []")
      case True
      with b Some assms(2) show ?thesis by simp
    next
      case False
      let ?vs = "str_split CHR '','' s"
      from build_attach_volumes_Inr [of s "kw_attach_volumes c"] b Some False
      have len: "length s \<le> 11" and ne: "list_all (\<lambda>e. e \<noteq> []) ?vs"
        and eq: "kw_attach_volumes c =
          zip ?vs (map (\<lambda>i. ''/dev/sd'' @ [chr i]) [102 ..< 102 + length ?vs])"
        by simp_all
      from nonempty_entries_bound [OF ne] len have n: "length ?vs \<le> 6" by linarith
      from assms(2) eq
      have "d \<in> set (map (\<lambda>i. ''/dev/sd'' @ [chr i]) [102 ..< 102 + length ?vs])"
        by (auto dest: set_zip_rightD)
      then obtain i where i: "102 \<le> i" "i < 102 + length ?vs"
        and d: "d = ''/dev/sd'' @ [chr i]"
        by auto
      from i n have "i < 113" by linarith
      with i(1) d show ?thesis using device_in_range by blast
    qed
  qed
qed

theorem StartAnalysisVm_device_names_in_range_witness:
  "\<lparr>kw_vm_name = ''analysis-vm'', kw_default_availability_zone = ''us-east-1a'',
     kw_boot_volume_size = 50, kw_cpu_cores = 4, kw_ami = None, kw_ssh_key_name = None,
     kw_attach_volumes = [(''v1'', ''/dev/sdf''), (''v2'', ''/dev/sdg'')]\<rparr>
     \<in> set (calls (StartAnalysisVm Inr started (no_args\<lparr>attach_volumes := Some ''v1,v2''\<rparr>))) \<and>
   ''/dev/sdg'' \<in> set (map (\<lambda>l. ''/dev/sd'' @ [l]) ''fghijklmnop'')"
proof -
  let ?c = "\<lparr>kw_vm_name = ''analysis-vm'', kw_default_availability_zone = ''us-east-1a'',
     kw_boot_volume_size = 50, kw_cpu_cores = 4, kw_ami = None, kw_ssh_key_name = None,
     kw_attach_volumes = [(''v1'', ''/dev/sdf''), (''v2'', ''/dev/sdg'')]\<rparr>"
  have b: "build_attach_volumes (Some ''v1,v2'') =
      Inr [(''v1'', ''/dev/sdf''), (''v2'', ''/dev/sdg'')]"
    by code_simp
  have c: "?c \<in> set (calls (StartAnalysisVm Inr started
      (no_args\<lparr>attach_volumes := Some ''v1,v2''\<rparr>)))"
    using b by (simp add: StartAnalysisVm_def no_args_def started_def)
  have m: "(''v2'', ''/dev/sdg'') \<in> set (kw_attach_volumes ?c)"
    by simp
  from StartAnalysisVm_device_names_in_range [OF c m] c show ?thesis
    by blast
qed

section \<open>StartAnalysisVm: no attachment list\<close>

text \<open>
  C10. When \<^verbatim>\<open>attach_volumes\<close> is absent or the empty string, and \<^verbatim>\<open>int\<close> accepts the
  sizes, the handler calls the VM-start operation once, with an empty attachment list and
  the other arguments as given; the first line printed is the start message and no line
  printed is an error message.
\<close>

theorem StartAnalysisVm_no_attach_volumes:
  assumes "attach_volumes args = None \<or> attach_volumes args = Some []"
    and "py_int (disk_size args) = Inr boot" and "py_int (cpu_cores args) = Inr cores"
  shows "calls (StartAnalysisVm py_int lib args) =
      [\<lparr>kw_vm_name = instance_name args, kw_default_availability_zone = zone args,
        kw_boot_volume_size = boot, kw_cpu_cores = cores, kw_ami = ami args,
        kw_ssh_key_name = ssh_key_name args, kw_attach_volumes = []\<rparr>] \<and>
     hd (printed (StartAnalysisVm py_int lib args)) = ''Starting analysis VM...'' \<and>
     (\<forall>l \<in> set (printed (StartAnalysisVm py_int lib args)). take 6 l \<noteq> ''error:'')"
proof -
  from assms(1) have b: "build_attach_volumes (attach_volumes args) = Inr []"
    by auto
  from StartAnalysisVm_proceeds [OF b assms(2,3)] b assms(2,3) show ?thesis
    by (auto simp: StartAnalysisVm_def Let_def split: sum.splits)
qed

theorem StartAnalysisVm_no_attach_volumes_witness:
  "calls (StartAnalysisVm Inr started no_args) =
      [\<lparr>kw_vm_name = ''analysis-vm'', kw_default_availability_zone = ''us-east-1a'',
        kw_boot_volume_size = 50, kw_cpu_cores = 4, kw_ami = None, kw_ssh_key_name = None,
        kw_attach_volumes = []\<rparr>] \<and>
   printed (StartAnalysisVm Inr started no_args) =
      [''Starting analysis VM...'', ''Analysis VM started.'',
       ''Name: analysis-vm, Started: True, Region: us-east-1'']"
proof -
  have p: "printed (StartAnalysisVm Inr started no_args) =
      [''Starting analysis VM...'', ''Analysis VM started.'',
       ''Name: analysis-vm, Started: True, Region: us-east-1'']"
    by (simp add: StartAnalysisVm_def no_args_def started_def)
  show ?thesis
    using p StartAnalysisVm_no_attach_volumes [of no_args Inr 50 4 started]
    by (simp add: no_args_def)
qed

section \<open>The listing commands on an empty result\<close>

text \<open>
  C2, as amended. When the listing call returns an empty result, \<^verbatim>\<open>ListInstances\<close> and
  \<^verbatim>\<open>ListVolumes\<close> print their header line and nothing else, and \<^verbatim>\<open>ListImages\<close>, which
  has no header line, prints nothing.
\<close>

theorem listing_empty_result:
  assumes "account_ListInstances (AWSAccount (zone args)) = Inr []"
    and "account_ListVolumes (AWSAccount (zone args)) = Inr []"
    and "account_ListImages (AWSAccount (zone args))
           [\<lparr>Name = ''name'', Values = [filter_arg args]\<rparr>] = Inr []"
  shows "printed (ListInstances account_ListInstances args) = [''Instances found:''] \<and>
         printed (ListVolumes account_ListVolumes args) = [''Volumes found:''] \<and>
         printed (ListImages account_ListImages args) = []"
  using assms by (simp add: ListInstances_def ListVolumes_def ListImages_def Let_def)

theorem listing_empty_result_witness:
  "printed (ListInstances (\<lambda>a. Inr []) no_args) = [''Instances found:''] \<and>
   printed (ListVolumes (\<lambda>a. Inr []) no_args) = [''Volumes found:''] \<and>
   printed (ListImages (\<lambda>a q. Inr []) no_args) = []"
  using listing_empty_result
      [where account_ListInstances = "\<lambda>a. Inr []" and args = no_args
        and account_ListVolumes = "\<lambda>a. Inr []" and account_ListImages = "\<lambda>a q. Inr []"]
  by simp

text \<open>
  C2 as stated fails for \<^verbatim>\<open>ListImages\<close>: on an empty result the run prints no line at
  all, so not a header line.
\<close>

theorem ListImages_empty_result_prints_nothing:
  "ListImages (\<lambda>a q. Inr []) no_args =
     \<lparr>printed = [],
      calls = [(AWSAccount ''us-east-1a'', [\<lparr>Name = ''name'', Values = [None]\<rparr>])],
      raised = None\<rparr>"
  by (simp add: ListImages_def no_args_def)

text \<open>One record: the header, then the line of the record.\<close>

lemma ListVolumes_one_volume:
  "printed (ListVolumes
      (\<lambda>a. Inr [(''vol-a'', \<lparr>vol_volume_id = ''vol-a'', vol_name = ''a'',
                              vol_availability_zone = ''us-east-1a''\<rparr>)]) no_args) =
     [''Volumes found:'', ''Name: vol-a, Zone: us-east-1a'']"
  by (simp add: ListVolumes_def)

section \<open>QueryLogs: the parameters of the lookup\<close>

text \<open>
  C7. With no filter and no end time supplied: when no start time is supplied either, the
  lookup is called with the empty parameter set; when the start argument is
  \<^verbatim>\<open>2020-01-01 00:00:00\<close>, it is called with the one parameter \<^verbatim>\<open>starttime\<close>, the time
  parsed from that string.
\<close>

theorem QueryLogs_parameters:
  assumes "filter_arg args = None \<or> filter_arg args = Some []"
    and "end_arg args = None \<or> end_arg args = Some []"
  shows "(start args = None \<or> start args = Some [] \<longrightarrow>
           calls (QueryLogs strptime ct_LookupEvents py_str args) =
             [(AWSCloudTrail (AWSAccount (zone args)), Map.empty)]) \<and>
         (start args = Some ''2020-01-01 00:00:00'' \<and>
          strptime ''2020-01-01 00:00:00'' = Inr t \<longrightarrow>
           calls (QueryLogs strptime ct_LookupEvents py_str args) =
             [(AWSCloudTrail (AWSAccount (zone args)), [''starttime'' \<mapsto> TimeParam t])])"
  using assms
  by (auto simp: QueryLogs_def set_filter_def set_time_def Let_def split: sum.splits)

theorem QueryLogs_parameters_witness:
  "calls (QueryLogs strptime_example no_events id no_args) =
     [(AWSCloudTrail (AWSAccount ''us-east-1a''), Map.empty)] \<and>
   calls (QueryLogs strptime_example no_events id
       (no_args\<lparr>start := Some ''2020-01-01 00:00:00''\<rparr>)) =
     [(AWSCloudTrail (AWSAccount ''us-east-1a''),
       [''starttime'' \<mapsto> TimeParam (2020, 1, 1, 0, 0, 0)])]"
  using QueryLogs_parameters
      [where args = no_args and strptime = strptime_example
        and ct_LookupEvents = no_events and py_str = id]
    QueryLogs_parameters
      [where args = "no_args\<lparr>start := Some ''2020-01-01 00:00:00''\<rparr>"
        and strptime = strptime_example and t = "(2020, 1, 1, 0, 0, 0)"
        and ct_LookupEvents = no_events and py_str = id]
  by (simp add: no_args_def strptime_example_def)

text \<open>
  C9. When a supplied start or end argument fails to parse, the run prints nothing, makes
  no lookup call, and ends with an exception, which is the parse failure of a supplied
  start or end argument.
\<close>

theorem QueryLogs_malformed_timestamp:
  assumes "a = start args \<or> a = end_arg args" and "a = Some s" and "s \<noteq> []"
    and "strptime s = Inl e"
  shows "printed (QueryLogs strptime ct_LookupEvents py_str args) = [] \<and>
         calls (QueryLogs strptime ct_LookupEvents py_str args) = [] \<and>
         (\<exists>s' e'. (start args = Some s' \<or> end_arg args = Some s') \<and> s' \<noteq> [] \<and>
            strptime s' = Inl e' \<and>
            raised (QueryLogs strptime ct_LookupEvents py_str args) = Some e')"
  using assms
  by (auto simp: QueryLogs_def set_time_def Let_def split: sum.splits option.splits if_splits)

theorem QueryLogs_malformed_timestamp_witness:
  "QueryLogs strptime_example no_events id (no_args\<lparr>end_arg := Some ''2020-01-01''\<rparr>) =
     \<lparr>printed = [], calls = [], raised = Some ValueError\<rparr>"
proof -
  have r: "raised (QueryLogs strptime_example no_events id
      (no_args\<lparr>end_arg := Some ''2020-01-01''\<rparr>)) = Some ValueError"
    by (simp add: QueryLogs_def set_time_def set_filter_def no_args_def strptime_example_def)
  show ?thesis
    using r QueryLogs_malformed_timestamp
        [where a = "Some ''2020-01-01''"
          and args = "no_args\<lparr>end_arg := Some ''2020-01-01''\<rparr>"
          and s = "''2020-01-01''" and strptime = strptime_example and e = ValueError
          and ct_LookupEvents = no_events and py_str = id]
    by (cases "QueryLogs strptime_example no_events id
        (no_args\<lparr>end_arg := Some ''2020-01-01''\<rparr>)")
      (simp add: strptime_example_def)
qed

section \<open>CreateVolumeCopy: the tags forwarded\<close>

text \<open>
  C8. When the tags argument is a non-empty string that \<^verbatim>\<open>json.loads\<close> parses, the
  volume-copy operation is called once with the parsed value as \<^verbatim>\<open>tags\<close>; when the
  argument is absent or empty, it is called once with \<^verbatim>\<open>tags\<close> left at \<^verbatim>\<open>None\<close>. The
  other arguments are forwarded as given.
\<close>

theorem CreateVolumeCopy_tags:
  "(tags args = Some s \<and> s \<noteq> [] \<and> json_loads s = Inr j \<longrightarrow>
      calls (CreateVolumeCopy json_loads forensics_CreateVolumeCopy args) =
        [\<lparr>kw_zone = zone args, kw_dst_zone = dst_zone args,
          kw_instance_id = instance_id args, kw_volume_id = volume_id args,
          kw_src_profile = src_profile args, kw_dst_profile = dst_profile args,
          kw_tags = Some j\<rparr>]) \<and>
   (tags args = None \<or> tags args = Some [] \<longrightarrow>
      calls (CreateVolumeCopy json_loads forensics_CreateVolumeCopy args) =
        [\<lparr>kw_zone = zone args, kw_dst_zone = dst_zone args,
          kw_instance_id = instance_id args, kw_volume_id = volume_id args,
          kw_src_profile = src_profile args, kw_dst_profile = dst_profile args,
          kw_tags = None\<rparr>])"
  by (auto simp: CreateVolumeCopy_def parse_tags_def Let_def split: sum.splits)

theorem CreateVolumeCopy_tags_witness:
  \<open>calls (CreateVolumeCopy json_loads_example copied
       (no_args\<lparr>volume_id := Some ''vol-1'', tags := Some ''{"case": "42"}''\<rparr>)) =
     [\<lparr>kw_zone = ''us-east-1a'', kw_dst_zone = None, kw_instance_id = None,
       kw_volume_id = Some ''vol-1'', kw_src_profile = None, kw_dst_profile = None,
       kw_tags = Some [(''case'', ''42'')]\<rparr>] \<and>
    calls (CreateVolumeCopy json_loads_example copied
       (no_args\<lparr>volume_id := Some ''vol-1''\<rparr>)) =
     [\<lparr>kw_zone = ''us-east-1a'', kw_dst_zone = None, kw_instance_id = None,
       kw_volume_id = Some ''vol-1'', kw_src_profile = None, kw_dst_profile = None,
       kw_tags = None\<rparr>]\<close>
  using CreateVolumeCopy_tags
      [where args =
          \<open>no_args\<lparr>volume_id := Some ''vol-1'', tags := Some ''{"case": "42"}''\<rparr>\<close>
        and s = \<open>''{"case": "42"}''\<close> and json_loads = json_loads_example
        and j = "[(''case'', ''42'')]" and forensics_CreateVolumeCopy = copied]
    CreateVolumeCopy_tags
      [where args = "no_args\<lparr>volume_id := Some ''vol-1''\<rparr>"
        and json_loads = json_loads_example and forensics_CreateVolumeCopy = copied]
  by (simp add: no_args_def json_loads_example_def)

end
